theory Spec2Isabelle
  imports Complex_Main "HOL-Library.List_Lexorder" "HOL-Library.Char_ord"
    "HOL-Library.Multiset"
begin

section \<open>Employee report generator: data model\<close>

text \<open>
  The program of \<^verbatim>\<open>employee_analysis.py\<close> is embedded function by function.  Text is
  \<^typ>\<open>string\<close> (a list of bytes; the three characters the program replaces are ASCII, and
  the byte-wise lexicographic order of UTF-8 text is the order of its code points).  A run
  threads a \<^emph>\<open>world\<close>: the files of the working directory and the lines printed so far.
  Every exception of the source is a value of \<open>error\<close>; a function that can raise returns
  \<open>error + 'a\<close>, and a function that can raise after it has changed the world returns the
  world beside the outcome, so that what a failed run leaves behind can be stated.

  File-system writes succeed in this model, and one path names one file (no links).
\<close>

datatype error =
    KeyError string
  | ValueError string
  | TypeError string
  | ParserError string
  | RenderError string
  | FileNotFoundError string

text \<open>
  A cell of a data frame: an integer, a text, or a missing value.  Floating-point cells are
  outside the model.  A data frame is the ordered list of its named columns.
\<close>

datatype cell = IntV int | StrV string | NaN

type_synonym table = "(string \<times> cell list) list"

record world =
  fs :: "string \<rightharpoonup> string"
  stdout :: "string list"

text \<open>The figure as \<open>plot_department_distribution\<close> has set it up when it is saved.\<close>

record figure =
  figsize :: "nat \<times> nat"
  bar_x :: "cell list"
  bar_height :: "nat list"
  title :: string
  xlabel :: string
  ylabel :: string
  xtick_rotation :: nat
  tight_layout :: bool

text \<open>
  The third-party functions the program calls and whose code is not part of the repository
  are parameters: the CSV parser of pandas, the seeded generator of numpy (its state is
  threaded through the calls, each returning the next state), the PNG back end of
  matplotlib, and base64 encoding.  A failure of the parser or of the renderer is the
  \<open>Inl\<close> of its message.
\<close>

record 'g lib =
  read_csv :: "string \<Rightarrow> string + table"
  default_rng :: "nat \<Rightarrow> 'g"
  choice :: "'g \<Rightarrow> string list \<Rightarrow> nat \<Rightarrow> rat list \<Rightarrow> string list \<times> 'g"
  integers :: "'g \<Rightarrow> int \<Rightarrow> int \<Rightarrow> nat \<Rightarrow> int list \<times> 'g"
  savefig :: "figure \<Rightarrow> string \<Rightarrow> string \<Rightarrow> string + string"
  b64encode :: "string \<Rightarrow> string"

section \<open>Python and pandas primitives\<close>

text \<open>\<open>str(n)\<close> of an integer, as an f-string renders it.\<close>

fun digits :: "nat \<Rightarrow> string" where
  "digits n =
     (if n < 10 then [''0123456789'' ! n]
      else digits (n div 10) @ [''0123456789'' ! (n mod 10)])"

definition str_int :: "int \<Rightarrow> string" where
  "str_int i = (if i < 0 then ''-'' @ digits (nat (- i)) else digits (nat i))"

text \<open>\<open>range(a, b)\<close>.\<close>

definition py_range :: "int \<Rightarrow> int \<Rightarrow> int list" where
  "py_range a b = [a..b - 1]"

text \<open>
  \<open>s.replace(old, new)\<close>: every non-overlapping occurrence of \<open>old\<close>, leftmost first;
  an empty \<open>old\<close> matches before every character and at the end.
\<close>

fun replace :: "string \<Rightarrow> string \<Rightarrow> string \<Rightarrow> string" where
  "replace old new [] = (if old = [] then new else [])"
| "replace old new (x # xs) =
     (if old = [] then new @ x # replace old new xs
      else if take (length old) (x # xs) = old
      then new @ replace old new (drop (length old) (x # xs))
      else x # replace old new xs)"

text \<open>\<open>sep.join(parts)\<close>.\<close>

fun join :: "string \<Rightarrow> string list \<Rightarrow> string" where
  "join sep [] = []"
| "join sep [p] = p"
| "join sep (p # q # ps) = p @ sep @ join sep (q # ps)"

text \<open>\<open>Path(base) / name\<close>, for the relative paths the program builds.\<close>

definition path_join :: "string \<Rightarrow> string \<Rightarrow> string" where
  "path_join base name = (if base = ''.'' then name else base @ ''/'' @ name)"

definition exists :: "world \<Rightarrow> string \<Rightarrow> bool" where
  "exists w path = (fs w path \<noteq> None)"

definition read_text :: "string \<Rightarrow> world \<Rightarrow> error + string" where
  "read_text path w =
     (case fs w path of None \<Rightarrow> Inl (FileNotFoundError path) | Some text \<Rightarrow> Inr text)"

definition write_text :: "string \<Rightarrow> string \<Rightarrow> world \<Rightarrow> world" where
  "write_text path text w = w\<lparr>fs := (fs w)(path \<mapsto> text)\<rparr>"

definition print :: "string \<Rightarrow> world \<Rightarrow> world" where
  "print line w = w\<lparr>stdout := stdout w @ [line]\<rparr>"

text \<open>
  \<open>pd.DataFrame(data)\<close> of a dictionary of columns: the columns must have one length.
\<close>

definition DataFrame :: "(string \<times> cell list) list \<Rightarrow> error + table" where
  "DataFrame data =
     (case data of
        [] \<Rightarrow> Inr []
      | (k, v) # rest \<Rightarrow>
          if list_all (\<lambda>c. length (snd c) = length v) rest then Inr data
          else Inl (ValueError ''All arrays must be of the same length''))"

text \<open>\<open>len(df)\<close> and \<open>df[name]\<close>; a column that is not there is a \<open>KeyError\<close>.\<close>

definition nrows :: "table \<Rightarrow> nat" where
  "nrows df = (case df of [] \<Rightarrow> 0 | (k, v) # rest \<Rightarrow> length v)"

definition getitem :: "table \<Rightarrow> string \<Rightarrow> error + cell list" where
  "getitem df name =
     (case map_of df name of None \<Rightarrow> Inl (KeyError name) | Some col \<Rightarrow> Inr col)"

text \<open>
  \<open>df.to_csv(path, index=False)\<close>: a header line with the column names, then one line per
  record, fields separated by commas, a field quoted only when it holds a comma, a quote or
  a line break, a missing value written as the empty field.  Lines end with a line feed,
  the line separator of a POSIX system.
\<close>

definition csv_quote :: "string \<Rightarrow> string" where
  \<open>csv_quote s =
     (if list_ex (\<lambda>c. c \<in> set [CHR '','', CHR ''"'', CHR 0x0A, CHR 0x0D]) s
      then ''"'' @ concat (map (\<lambda>c. if c = CHR ''"'' then ''""'' else [c]) s) @ ''"''
      else s)\<close>

definition csv_field :: "cell \<Rightarrow> string" where
  "csv_field c = (case c of IntV i \<Rightarrow> str_int i | StrV s \<Rightarrow> csv_quote s | NaN \<Rightarrow> [])"

definition records :: "table \<Rightarrow> cell list list" where
  "records df = map (\<lambda>i. map (\<lambda>c. snd c ! i) df) [0..<nrows df]"

definition to_csv :: "table \<Rightarrow> string" where
  "to_csv df =
     concat (map (\<lambda>fields. join '','' fields @ [CHR 0x0A])
       (map (\<lambda>c. csv_quote (fst c)) df # map (map csv_field) (records df)))"

text \<open>
  \<open>series == value\<close> against a text, element by element, and \<open>.sum()\<close> of the Boolean
  series, which counts its true entries.
\<close>

definition eq_scalar :: "cell list \<Rightarrow> string \<Rightarrow> bool list" where
  "eq_scalar col v = map (\<lambda>c. c = StrV v) col"

definition sum_bool :: "bool list \<Rightarrow> int" where
  "sum_bool bs = sum_list (map (\<lambda>b. if b then 1 else 0) bs)"

text \<open>
  \<open>series.value_counts()\<close>: the distinct values that are not missing, each with the number
  of its occurrences, most frequent first (ties in the order of first appearance).
\<close>

definition value_counts :: "cell list \<Rightarrow> (cell \<times> nat) list" where
  "value_counts col =
     (let vals = filter (\<lambda>c. c \<noteq> NaN) col;
          labels = rev (remdups (rev vals))
      in sort_key (\<lambda>p. - int (snd p)) (map (\<lambda>l. (l, count_list vals l)) labels))"

text \<open>
  \<open>counts.sort_index()\<close>: ascending by label.  Texts compare lexicographically and integers
  numerically; Python refuses to compare a text with an integer.
\<close>

fun str_label :: "cell \<Rightarrow> string" where
  "str_label (StrV s) = s"
| "str_label c = []"

fun int_label :: "cell \<Rightarrow> int" where
  "int_label (IntV i) = i"
| "int_label c = 0"

fun is_str :: "cell \<Rightarrow> bool" where
  "is_str (StrV s) = True"
| "is_str c = False"

fun is_int :: "cell \<Rightarrow> bool" where
  "is_int (IntV i) = True"
| "is_int c = False"

definition sort_index :: "(cell \<times> nat) list \<Rightarrow> error + (cell \<times> nat) list" where
  "sort_index counts =
     (if list_all (\<lambda>p. is_str (fst p)) counts
      then Inr (sort_key (\<lambda>p. str_label (fst p)) counts)
      else if list_all (\<lambda>p. is_int (fst p)) counts
      then Inr (sort_key (\<lambda>p. int_label (fst p)) counts)
      else Inl (TypeError ''< not supported between instances of str and int''))"

section \<open>The program\<close>

text \<open>
  \<open>load_or_generate_data\<close>: read the table when the file exists; otherwise draw the three
  random columns from one generator seeded with 7, in the order the dictionary literal
  lists them, build the frame, write it, and return it.
\<close>

definition load_or_generate_data ::
    "'g lib \<Rightarrow> string \<Rightarrow> world \<Rightarrow> (error + table) \<times> world" where
  "load_or_generate_data L csv_path w =
     (if exists w csv_path then
        (case read_text csv_path w of
           Inl e \<Rightarrow> (Inl e, w)
         | Inr text \<Rightarrow>
             (case read_csv L text of
                Inl msg \<Rightarrow> (Inl (ParserError msg), w)
              | Inr df \<Rightarrow> (Inr df, w)))
      else
        (let rng = default_rng L 7;
             departments = [''Finance'', ''HR'', ''IT'', ''Operations'', ''Sales'', ''Marketing''];
             regions = [''North'', ''South'', ''East'', ''West''];
             (department, rng1) = choice L rng departments 100 [0.18, 0.12, 0.22, 0.20, 0.18, 0.10];
             (region, rng2) = choice L rng1 regions 100 [0.3, 0.25, 0.25, 0.2];
             (score, rng3) = integers L rng2 1 6 100;
             data = [(''Employee_ID'', map IntV (py_range 1 101)),
                     (''Department'', map StrV department),
                     (''Region'', map StrV region),
                     (''Performance_Score'', map IntV score)]
         in case DataFrame data of
              Inl e \<Rightarrow> (Inl e, w)
            | Inr df \<Rightarrow> (Inr df, write_text csv_path (to_csv df) w)))"

text \<open>
  \<open>plot_department_distribution\<close>: line 40 of the source computes \<open>counts\<close>; the bars are
  its index and its values, in that order.
\<close>

definition department_counts :: "table \<Rightarrow> error + (cell \<times> nat) list" where
  "department_counts df =
     (case getitem df ''Department'' of
        Inl e \<Rightarrow> Inl e
      | Inr col \<Rightarrow> sort_index (value_counts col))"

definition department_figure :: "(cell \<times> nat) list \<Rightarrow> figure" where
  "department_figure counts =
     \<lparr>figsize = (8, 5),
      bar_x = map fst counts,
      bar_height = map snd counts,
      title = ''Department Distribution (Employee Count)'',
      xlabel = ''Department'',
      ylabel = ''Count'',
      xtick_rotation = 30,
      tight_layout = True\<rparr>"

definition plot_department_distribution :: "'g lib \<Rightarrow> table \<Rightarrow> error + string" where
  "plot_department_distribution L df =
     (case department_counts df of
        Inl e \<Rightarrow> Inl e
      | Inr counts \<Rightarrow>
          (case savefig L (department_figure counts) ''png'' ''tight'' of
             Inl msg \<Rightarrow> Inl (RenderError msg)
           | Inr buf \<Rightarrow> Inr buf))"

text \<open>\<open>build_html_report\<close>: the f-string, with its three holes, written to \<open>out_html\<close>.\<close>

definition report_head :: string where
  \<open>report_head = concat
    [''<!doctype html>\<newline>'',
     ''<html lang="en">\<newline>'',
     ''<head>\<newline>'',
     ''  <meta charset="utf-8" />\<newline>'',
     ''  <title>Employee Analysis Report</title>\<newline>'',
     ''  <meta name="viewport" content="width=device-width, initial-scale=1" />\<newline>'',
     ''  <style>\<newline>'',
     ''    body { font-family: system-ui, -apple-system, Segoe UI, Roboto, Arial, sans-serif; margin: 24px; }\<newline>'',
     ''    h1, h2 { margin: 0.2em 0; }\<newline>'',
     ''    .code { white-space: pre; background: #f5f5f5; border: 1px solid #e0e0e0; padding: 12px; overflow-x: auto; }\<newline>'',
     ''    .meta { color: #444; margin-bottom: 16px; }\<newline>'',
     ''    .imgwrap { display: flex; justify-content: center; margin: 16px 0; }\<newline>'',
     ''  </style>\<newline>'',
     ''</head>\<newline>'',
     ''<body>\<newline>'',
     ''  <h1>Employee Performance Analysis</h1>\<newline>'',
     ''  <div class="meta">Author contact: <strong>24ds1000011@ds.study.iitm.ac.in</strong></div>\<newline>'',
     ''\<newline>'',
     ''  <h2>Finance Department Frequency</h2>\<newline>'',
     ''  <p>Number of employees in <strong>Finance</strong>: <strong>'']\<close>

definition report_chart :: string where
  \<open>report_chart = concat
    [''</strong></p>\<newline>'',
     ''\<newline>'',
     ''  <h2>Department Distribution (Histogram-style)</h2>\<newline>'',
     ''  <div class="imgwrap">\<newline>'',
     ''    <img alt="Department Distribution" src="data:image/png;base64,'']\<close>

definition report_code :: string where
  \<open>report_code = concat
    [''" />\<newline>'',
     ''  </div>\<newline>'',
     ''\<newline>'',
     ''  <h2>Python Code</h2>\<newline>'',
     ''  <div class="code">'']\<close>

definition report_tail :: string where
  \<open>report_tail = concat
    [''</div>\<newline>'',
     ''</body>\<newline>'',
     ''</html>'']\<close>

definition build_html_report ::
    "'g lib \<Rightarrow> string \<Rightarrow> string \<Rightarrow> int \<Rightarrow> string \<Rightarrow> world \<Rightarrow> world" where
  "build_html_report L code_text img_png_bytes finance_count out_html w =
     (let img_b64 = b64encode L img_png_bytes;
          html = report_head @ str_int finance_count @ report_chart @ img_b64
                 @ report_code @ code_text @ report_tail
      in write_text out_html html w)"

text \<open>
  Lines 110 to 113 of \<open>main\<close>: the three replacements, the ampersand first.
\<close>

definition escape_source :: "string \<Rightarrow> string" where
  "escape_source code_text =
     replace ''>'' ''&gt;'' (replace ''<'' ''&lt;'' (replace ''&'' ''&amp;'' code_text))"

text \<open>
  \<open>main\<close>, run as the script at \<open>script_path\<close> (the value of \<open>__file__\<close>).  An exception
  ends the run where it is raised; the world returned is the one reached by then.
\<close>

definition main :: "'g lib \<Rightarrow> string \<Rightarrow> world \<Rightarrow> (error + unit) \<times> world" where
  "main L script_path w =
     (let base = ''.'';
          csv_path = path_join base ''employees.csv'';
          out_html = path_join base ''employee_report.html''
      in case load_or_generate_data L csv_path w of
           (Inl e, w1) \<Rightarrow> (Inl e, w1)
         | (Inr df, w1) \<Rightarrow>
             (case getitem df ''Department'' of
                Inl e \<Rightarrow> (Inl e, w1)
              | Inr col \<Rightarrow>
                  (let finance_count = sum_bool (eq_scalar col ''Finance'');
                       w2 = print (''Finance department frequency: '' @ str_int finance_count) w1
                   in case plot_department_distribution L df of
                        Inl e \<Rightarrow> (Inl e, w2)
                      | Inr img_bytes \<Rightarrow>
                          (case read_text script_path w2 of
                             Inl e \<Rightarrow> (Inl e, w2)
                           | Inr code_text \<Rightarrow>
                               (let code_text' = escape_source code_text
                                in (Inr (),
                                    build_html_report L code_text' img_bytes finance_count
                                      out_html w2))))))"

section \<open>What the program relies on from the random generator\<close>

text \<open>
  The documented behaviour of \<open>Generator.choice\<close> and \<open>Generator.integers\<close>, as far as
  the program depends on it: given candidates and a probability vector over them, \<open>choice\<close>
  returns \<open>size\<close> values, each one of the candidates; \<open>integers\<close> returns \<open>size\<close> values of
  the half-open interval from \<open>low\<close> to \<open>high\<close>.
\<close>

definition sampler_contract :: "'g lib \<Rightarrow> bool" where
  "sampler_contract L =
     ((\<forall>g xs n p.
          xs \<noteq> [] \<and> length p = length xs \<and> list_all (\<lambda>q. 0 \<le> q) p \<and> sum_list p = 1 \<longrightarrow>
          length (fst (choice L g xs n p)) = n \<and> set (fst (choice L g xs n p)) \<subseteq> set xs) \<and>
      (\<forall>g lo hi n.
          lo < hi \<longrightarrow>
          length (fst (integers L g lo hi n)) = n \<and>
          (\<forall>v \<in> set (fst (integers L g lo hi n)). lo \<le> v \<and> v < hi)))"

section \<open>The escaping, as the specification words it\<close>

text \<open>
  The specification describes the escaping character by character: an ampersand, a
  less-than sign and a greater-than sign become their named entities, every other
  character stays.  \<open>html_entity\<close> is that description; \<open>escape_source\<close> above is the code.
  \<open>entity_at t i\<close> says that one of the three entities starts at position \<open>i\<close> of \<open>t\<close>.
\<close>

definition html_entity :: "char \<Rightarrow> string" where
  "html_entity c =
     (if c = CHR ''&'' then ''&amp;''
      else if c = CHR ''<'' then ''&lt;''
      else if c = CHR ''>'' then ''&gt;''
      else [c])"

definition entity_at :: "string \<Rightarrow> nat \<Rightarrow> bool" where
  "entity_at t i =
     list_ex (\<lambda>e. take (length e) (drop i t) = e) [''&amp;'', ''&lt;'', ''&gt;'']"

section \<open>A concrete library, for running the model\<close>

text \<open>
  A small deterministic instance of the parameters: the generator state is a counter, a
  draw takes the candidates (or the integers of the interval) in turn, the parser splits
  lines and commas and keeps every field as text, the renderer writes the bar heights, and
  the encoding is the identity.  The theorems below hold for every library; this one is
  the input of their instances.
\<close>

fun split_on :: "char \<Rightarrow> string \<Rightarrow> string list" where
  "split_on c [] = [[]]"
| "split_on c (x # xs) =
     (if x = c then [] # split_on c xs
      else (case split_on c xs of [] \<Rightarrow> [[x]] | p # ps \<Rightarrow> (x # p) # ps))"

definition demo_read_csv :: "string \<Rightarrow> string + table" where
  "demo_read_csv text =
     (case filter (\<lambda>l. l \<noteq> []) (split_on (CHR 0x0A) text) of
        [] \<Rightarrow> Inl ''No columns to parse from file''
      | header # rows \<Rightarrow>
          Inr (map (\<lambda>(i, name).
                 (name, map (\<lambda>r. let fields = split_on (CHR '','') r
                                  in if i < length fields then StrV (fields ! i) else NaN) rows))
               (enumerate 0 (split_on (CHR '','') header))))"

definition demo_choice :: "nat \<Rightarrow> string list \<Rightarrow> nat \<Rightarrow> rat list \<Rightarrow> string list \<times> nat" where
  "demo_choice g xs n p = (map (\<lambda>i. xs ! ((g + i) mod length xs)) [0..<n], g + n)"

definition demo_integers :: "nat \<Rightarrow> int \<Rightarrow> int \<Rightarrow> nat \<Rightarrow> int list \<times> nat" where
  "demo_integers g lo hi n =
     (map (\<lambda>i. lo + int ((g + i) mod nat (hi - lo))) [0..<n], g + n)"

definition demo_savefig :: "figure \<Rightarrow> string \<Rightarrow> string \<Rightarrow> string + string" where
  "demo_savefig fig fmt bbox =
     (if fmt = ''png'' then Inr (join '' '' (map (\<lambda>h. digits h) (bar_height fig)))
      else Inl ''unsupported format'')"

definition demo_lib :: "nat lib" where
  "demo_lib =
     \<lparr>read_csv = demo_read_csv,
      default_rng = (\<lambda>seed. seed),
      choice = demo_choice,
      integers = demo_integers,
      savefig = demo_savefig,
      b64encode = (\<lambda>bytes. bytes)\<rparr>"

definition empty_world :: world where
  "empty_world = \<lparr>fs = Map.empty, stdout = []\<rparr>"

text \<open>
  Working directories: one with a staffed dataset and the script, one with a dataset that
  has no department column, and one without a dataset but with other files and earlier
  output.
\<close>

definition cluttered_world :: world where
  "cluttered_world =
     \<lparr>fs = [''notes.txt'' \<mapsto> ''remember'', ''other.py'' \<mapsto> ''pass''],
      stdout = [''earlier output'']\<rparr>"

definition staffed_csv :: string where
  "staffed_csv = ''Name,Department\<newline>Ann,IT\<newline>Bob,Finance\<newline>Cy,HR\<newline>''"

definition staffed_table :: table where
  "staffed_table =
     [(''Name'', [StrV ''Ann'', StrV ''Bob'', StrV ''Cy'']),
      (''Department'', [StrV ''IT'', StrV ''Finance'', StrV ''HR''])]"

definition staffed_world :: world where
  "staffed_world =
     \<lparr>fs = [''employees.csv'' \<mapsto> staffed_csv, ''report.py'' \<mapsto> ''if a < b & c > d: pass''],
      stdout = []\<rparr>"

definition stale_csv :: string where
  "stale_csv = ''Name,Team\<newline>Ann,IT\<newline>''"

definition stale_table :: table where
  "stale_table = [(''Name'', [StrV ''Ann'']), (''Team'', [StrV ''IT''])]"

definition stale_world :: world where
  "stale_world = \<lparr>fs = [''employees.csv'' \<mapsto> stale_csv], stdout = []\<rparr>"

section \<open>Basic facts about a run\<close>

lemma path_join_dot [simp]: "path_join ''.'' name = name"
  by (simp add: path_join_def)

lemma load_present_world:
  "exists w p \<Longrightarrow> snd (load_or_generate_data L p w) = w"
  by (simp add: load_or_generate_data_def split: sum.splits)

lemma load_stdout:
  "stdout (snd (load_or_generate_data L p w)) = stdout w"
  by (simp add: load_or_generate_data_def write_text_def Let_def split: sum.splits prod.splits)

text \<open>
  After the dataset provider has returned, nothing in \<open>main\<close> writes to the dataset path:
  the only later write goes to the report path, a different name.
\<close>

lemma main_fs_dataset:
  "fs (snd (main L script_path w)) ''employees.csv'' =
   fs (snd (load_or_generate_data L ''employees.csv'' w)) ''employees.csv''"
  by (simp add: main_def Let_def build_html_report_def write_text_def print_def
           split: sum.splits prod.splits)

lemma getitem_missing:
  "name \<notin> fst ` set df \<Longrightarrow> getitem df name = Inl (KeyError name)"
  by (simp add: getitem_def map_of_eq_None_iff [THEN iffD2])

lemma sum_bool_count:
  "sum_bool (eq_scalar col v) = int (length (filter (\<lambda>c. c = StrV v) col))"
  by (induction col) (simp_all add: sum_bool_def eq_scalar_def)

lemma main_stdout:
  assumes "load_or_generate_data L ''employees.csv'' w = (Inr df, w1)"
    and "getitem df ''Department'' = Inr col"
  shows "stdout (snd (main L script_path w)) =
         stdout w @ [''Finance department frequency: ''
                     @ str_int (sum_bool (eq_scalar col ''Finance''))]"
proof -
  have "stdout w1 = stdout w"
    using load_stdout [of L "''employees.csv''" w] assms(1) by simp
  then show ?thesis
    using assms
    by (simp add: main_def Let_def build_html_report_def write_text_def print_def
           split: sum.splits prod.splits)
qed

subsection \<open>The concrete library and working directories\<close>

lemma demo_read_staffed: "demo_read_csv staffed_csv = Inr staffed_table"
  by (simp add: demo_read_csv_def staffed_csv_def staffed_table_def)

lemma demo_read_stale: "demo_read_csv stale_csv = Inr stale_table"
  by (simp add: demo_read_csv_def stale_csv_def stale_table_def)

lemma load_staffed:
  "load_or_generate_data demo_lib ''employees.csv'' staffed_world =
   (Inr staffed_table, staffed_world)"
  by (simp add: load_or_generate_data_def exists_def read_text_def staffed_world_def
        demo_lib_def demo_read_staffed)

lemma empty_world_absent: "\<not> exists empty_world p"
  by (simp add: exists_def empty_world_def)

lemma cluttered_world_absent: "\<not> exists cluttered_world ''employees.csv''"
  by (simp add: exists_def cluttered_world_def)

lemma demo_lib_contract: "sampler_contract demo_lib"
  unfolding sampler_contract_def
proof (intro conjI allI impI ballI)
  fix g :: nat and xs :: "string list" and n :: nat and p :: "rat list"
  assume a: "xs \<noteq> [] \<and> length p = length xs \<and> list_all (\<lambda>q. 0 \<le> q) p \<and> sum_list p = 1"
  show "length (fst (choice demo_lib g xs n p)) = n"
    by (simp add: demo_lib_def demo_choice_def)
  show "set (fst (choice demo_lib g xs n p)) \<subseteq> set xs"
    using a by (auto simp add: demo_lib_def demo_choice_def)
next
  fix g :: nat and lo hi :: int and n :: nat
  assume "lo < hi"
  show "length (fst (integers demo_lib g lo hi n)) = n"
    by (simp add: demo_lib_def demo_integers_def)
next
  fix g :: nat and lo hi v :: int and n :: nat
  assume lt: "lo < hi" and v: "v \<in> set (fst (integers demo_lib g lo hi n))"
  then obtain i where "v = lo + int ((g + i) mod nat (hi - lo))"
    by (auto simp add: demo_lib_def demo_integers_def)
  moreover have "(g + i) mod nat (hi - lo) < nat (hi - lo)"
    using lt by simp
  ultimately show "lo \<le> v" and "v < hi"
    using lt by linarith+
qed

section \<open>The data-generation path\<close>

text \<open>The two weight lists are probability vectors over their candidates.\<close>

lemma weights_ok:
  "length [0.18, 0.12, 0.22, 0.20, 0.18, 0.10 :: rat] =
   length [''Finance'', ''HR'', ''IT'', ''Operations'', ''Sales'', ''Marketing'']"
  "list_all (\<lambda>q. 0 \<le> q) [0.18, 0.12, 0.22, 0.20, 0.18, 0.10 :: rat]"
  "sum_list [0.18, 0.12, 0.22, 0.20, 0.18, 0.10 :: rat] = 1"
  "length [0.3, 0.25, 0.25, 0.2 :: rat] = length [''North'', ''South'', ''East'', ''West'']"
  "list_all (\<lambda>q. 0 \<le> q) [0.3, 0.25, 0.25, 0.2 :: rat]"
  "sum_list [0.3, 0.25, 0.25, 0.2 :: rat] = 1"
  by simp_all

lemma contract_choice:
  assumes "sampler_contract L" and "xs \<noteq> []" and "length p = length xs"
    and "list_all (\<lambda>q. 0 \<le> q) p" and "sum_list p = 1"
    and "choice L g xs n p = (ys, g')"
  shows "length ys = n \<and> set ys \<subseteq> set xs"
proof -
  have "length (fst (choice L g xs n p)) = n \<and> set (fst (choice L g xs n p)) \<subseteq> set xs"
    using assms(1-5) unfolding sampler_contract_def by blast
  then show ?thesis using assms(6) by simp
qed

lemma contract_integers:
  assumes "sampler_contract L" and "lo < hi" and "integers L g lo hi n = (ys, g')"
  shows "length ys = n \<and> (\<forall>v \<in> set ys. lo \<le> v \<and> v < hi)"
proof -
  have "length (fst (integers L g lo hi n)) = n
        \<and> (\<forall>v \<in> set (fst (integers L g lo hi n)). lo \<le> v \<and> v < hi)"
    using assms(1,2) unfolding sampler_contract_def by blast
  then show ?thesis using assms(3) by simp
qed

lemma py_range_ids: "py_range 1 101 = [1..100]" "length (py_range 1 101) = 100"
  by (simp_all add: py_range_def)

text \<open>
  The branch taken when the file is absent, with the three draws named: the frame is
  built from them, written to the path, and returned.
\<close>

lemma load_absent:
  assumes "sampler_contract L" and "\<not> exists w p"
    and "choice L (default_rng L 7)
           [''Finance'', ''HR'', ''IT'', ''Operations'', ''Sales'', ''Marketing''] 100
           [0.18, 0.12, 0.22, 0.20, 0.18, 0.10] = (department, rng1)"
    and "choice L rng1 [''North'', ''South'', ''East'', ''West''] 100
           [0.3, 0.25, 0.25, 0.2] = (region, rng2)"
    and "integers L rng2 1 6 100 = (score, rng3)"
    and "df = [(''Employee_ID'', map IntV (py_range 1 101)),
               (''Department'', map StrV department),
               (''Region'', map StrV region),
               (''Performance_Score'', map IntV score)]"
  shows "load_or_generate_data L p w = (Inr df, write_text p (to_csv df) w)"
    and "length department = 100"
    and "set department \<subseteq> set [''Finance'', ''HR'', ''IT'', ''Operations'', ''Sales'', ''Marketing'']"
    and "length region = 100"
    and "set region \<subseteq> set [''North'', ''South'', ''East'', ''West'']"
    and "length score = 100"
    and "\<forall>v \<in> set score. 1 \<le> v \<and> v < 6"
proof -
  have d: "length department = 100
           \<and> set department \<subseteq> set [''Finance'', ''HR'', ''IT'', ''Operations'', ''Sales'', ''Marketing'']"
    by (rule contract_choice [OF assms(1) _ weights_ok(1,2,3) assms(3)]) simp
  have r: "length region = 100 \<and> set region \<subseteq> set [''North'', ''South'', ''East'', ''West'']"
    by (rule contract_choice [OF assms(1) _ weights_ok(4,5,6) assms(4)]) simp
  have s: "length score = 100 \<and> (\<forall>v \<in> set score. 1 \<le> v \<and> v < 6)"
    by (rule contract_integers [OF assms(1) _ assms(5)]) simp
  show "length department = 100"
    and "set department \<subseteq> set [''Finance'', ''HR'', ''IT'', ''Operations'', ''Sales'', ''Marketing'']"
    and "length region = 100"
    and "set region \<subseteq> set [''North'', ''South'', ''East'', ''West'']"
    and "length score = 100"
    and "\<forall>v \<in> set score. 1 \<le> v \<and> v < 6"
    using d r s by blast+
  have "DataFrame df = Inr df"
    using d r s by (simp add: DataFrame_def assms(6) py_range_ids(2))
  then show "load_or_generate_data L p w = (Inr df, write_text p (to_csv df) w)"
    using assms(2,3,4,5)
    by (simp add: load_or_generate_data_def Let_def assms(6))
qed

lemma fresh_table_exists:
  assumes "sampler_contract L" and "\<not> exists w p"
  shows "\<exists>df w1. load_or_generate_data L p w = (Inr df, w1)"
proof -
  obtain department rng1 where c1:
    "choice L (default_rng L 7)
       [''Finance'', ''HR'', ''IT'', ''Operations'', ''Sales'', ''Marketing''] 100
       [0.18, 0.12, 0.22, 0.20, 0.18, 0.10] = (department, rng1)"
    by fastforce
  obtain region rng2 where c2:
    "choice L rng1 [''North'', ''South'', ''East'', ''West''] 100
       [0.3, 0.25, 0.25, 0.2] = (region, rng2)"
    by fastforce
  obtain score rng3 where c3: "integers L rng2 1 6 100 = (score, rng3)"
    by fastforce
  from load_absent(1) [OF assms c1 c2 c3 refl] show ?thesis
    by blast
qed

text \<open>Without the contract, the branch either raises the \<open>ValueError\<close> of the frame
  constructor or returns a frame whose second column is the Department column.\<close>

lemma load_absent_shape:
  assumes "\<not> exists w p" and "load_or_generate_data L p w = (r, w1)"
  shows "(\<exists>m. r = Inl (ValueError m))
         \<or> (\<exists>ids department region score.
               r = Inr [(''Employee_ID'', ids), (''Department'', map StrV department),
                        (''Region'', region), (''Performance_Score'', score)])"
  using assms
  by (auto simp add: load_or_generate_data_def Let_def DataFrame_def
        split: prod.splits if_splits)

text \<open>
  Claim C2.  Whenever no file exists at the dataset path (and the generator returns as many
  values as it is asked for), \<open>load_or_generate_data\<close> returns a table of exactly 100
  records, every column of length 100, whose \<open>Employee_ID\<close> column is 1, 2, ..., 100 in
  this order, without repetition.
\<close>

theorem fresh_run_has_100_records:
  assumes "sampler_contract L" and "\<not> exists w csv_path"
  shows "\<exists>df w'. load_or_generate_data L csv_path w = (Inr df, w')
           \<and> nrows df = 100
           \<and> list_all (\<lambda>c. length (snd c) = 100) df
           \<and> getitem df ''Employee_ID'' = Inr (map IntV [1..100])
           \<and> distinct (map IntV [1..100])"
proof -
  obtain department rng1 where c1:
    "choice L (default_rng L 7)
       [''Finance'', ''HR'', ''IT'', ''Operations'', ''Sales'', ''Marketing''] 100
       [0.18, 0.12, 0.22, 0.20, 0.18, 0.10] = (department, rng1)"
    by fastforce
  obtain region rng2 where c2:
    "choice L rng1 [''North'', ''South'', ''East'', ''West''] 100
       [0.3, 0.25, 0.25, 0.2] = (region, rng2)"
    by fastforce
  obtain score rng3 where c3: "integers L rng2 1 6 100 = (score, rng3)"
    by fastforce
  define df where "df = [(''Employee_ID'', map IntV (py_range 1 101)),
               (''Department'', map StrV department),
               (''Region'', map StrV region),
               (''Performance_Score'', map IntV score)]"
  note gen = load_absent [OF assms c1 c2 c3 df_def]
  have "nrows df = 100"
    by (simp add: nrows_def df_def py_range_ids)
  moreover have "list_all (\<lambda>c. length (snd c) = 100) df"
    using gen(2,4,6) by (simp add: df_def py_range_ids)
  moreover have "getitem df ''Employee_ID'' = Inr (map IntV [1..100])"
    by (simp add: getitem_def df_def py_range_ids)
  moreover have "distinct (map IntV [1..100])"
    by (simp add: distinct_map inj_on_def)
  ultimately show ?thesis
    using gen(1) by blast
qed

theorem fresh_run_has_100_records_witness:
  "sampler_contract demo_lib \<and> \<not> exists empty_world ''employees.csv''
   \<and> (\<exists>df w'. load_or_generate_data demo_lib ''employees.csv'' empty_world = (Inr df, w')
           \<and> nrows df = 100
           \<and> list_all (\<lambda>c. length (snd c) = 100) df
           \<and> getitem df ''Employee_ID'' = Inr (map IntV [1..100])
           \<and> distinct (map IntV [1..100]))"
  using fresh_run_has_100_records [OF demo_lib_contract empty_world_absent, of "''employees.csv''"]
    demo_lib_contract empty_world_absent
  by blast

text \<open>
  Claim C8.  On the data-generation path the Department column is what the generator's
  \<open>choice\<close> returns for the six categories Finance, HR, IT, Operations, Sales, Marketing
  with the weights 0.18, 0.12, 0.22, 0.20, 0.18, 0.10, the Region column what it returns
  next for North, South, East, West with the weights 0.30, 0.25, 0.25, 0.20, and the
  Performance_Score column what its uniform \<open>integers\<close> returns next for the half-open
  interval from 1 to 6.  With a generator that keeps its contract, every record's
  department is one of the six categories, its region one of the four, and its score one
  of 1, 2, 3, 4, 5.
\<close>

theorem synthesized_values_in_range:
  assumes "sampler_contract L" and "\<not> exists w csv_path"
  shows "\<exists>department rng1 region rng2 score rng3 w'.
           choice L (default_rng L 7)
             [''Finance'', ''HR'', ''IT'', ''Operations'', ''Sales'', ''Marketing''] 100
             [0.18, 0.12, 0.22, 0.20, 0.18, 0.10] = (department, rng1)
         \<and> choice L rng1 [''North'', ''South'', ''East'', ''West''] 100
             [0.3, 0.25, 0.25, 0.2] = (region, rng2)
         \<and> integers L rng2 1 6 100 = (score, rng3)
         \<and> load_or_generate_data L csv_path w =
             (Inr [(''Employee_ID'', map IntV (py_range 1 101)),
                   (''Department'', map StrV department),
                   (''Region'', map StrV region),
                   (''Performance_Score'', map IntV score)], w')
         \<and> length department = 100
         \<and> set department \<subseteq> {''Finance'', ''HR'', ''IT'', ''Operations'', ''Sales'', ''Marketing''}
         \<and> length region = 100
         \<and> set region \<subseteq> {''North'', ''South'', ''East'', ''West''}
         \<and> length score = 100
         \<and> set score \<subseteq> {1, 2, 3, 4, 5}"
proof -
  obtain department rng1 where c1:
    "choice L (default_rng L 7)
       [''Finance'', ''HR'', ''IT'', ''Operations'', ''Sales'', ''Marketing''] 100
       [0.18, 0.12, 0.22, 0.20, 0.18, 0.10] = (department, rng1)"
    by fastforce
  obtain region rng2 where c2:
    "choice L rng1 [''North'', ''South'', ''East'', ''West''] 100
       [0.3, 0.25, 0.25, 0.2] = (region, rng2)"
    by fastforce
  obtain score rng3 where c3: "integers L rng2 1 6 100 = (score, rng3)"
    by fastforce
  note gen = load_absent [OF assms c1 c2 c3 refl]
  have "set score \<subseteq> {1, 2, 3, 4, 5}"
  proof
    fix v assume "v \<in> set score"
    then have "1 \<le> v \<and> v < 6" using gen(7) by blast
    then show "v \<in> {1, 2, 3, 4, 5}" by auto
  qed
  moreover have "set department \<subseteq> {''Finance'', ''HR'', ''IT'', ''Operations'', ''Sales'', ''Marketing''}"
    using gen(3) by simp
  moreover have "set region \<subseteq> {''North'', ''South'', ''East'', ''West''}"
    using gen(5) by simp
  ultimately show ?thesis
    using c1 c2 c3 gen(1,2,4,6) by blast
qed

theorem synthesized_values_in_range_witness:
  "sampler_contract demo_lib \<and> \<not> exists empty_world ''employees.csv''
   \<and> (\<exists>department rng1 region rng2 score rng3 w'.
           choice demo_lib (default_rng demo_lib 7)
             [''Finance'', ''HR'', ''IT'', ''Operations'', ''Sales'', ''Marketing''] 100
             [0.18, 0.12, 0.22, 0.20, 0.18, 0.10] = (department, rng1)
         \<and> choice demo_lib rng1 [''North'', ''South'', ''East'', ''West''] 100
             [0.3, 0.25, 0.25, 0.2] = (region, rng2)
         \<and> integers demo_lib rng2 1 6 100 = (score, rng3)
         \<and> load_or_generate_data demo_lib ''employees.csv'' empty_world =
             (Inr [(''Employee_ID'', map IntV (py_range 1 101)),
                   (''Department'', map StrV department),
                   (''Region'', map StrV region),
                   (''Performance_Score'', map IntV score)], w')
         \<and> length department = 100
         \<and> set department \<subseteq> {''Finance'', ''HR'', ''IT'', ''Operations'', ''Sales'', ''Marketing''}
         \<and> length region = 100
         \<and> set region \<subseteq> {''North'', ''South'', ''East'', ''West''}
         \<and> length score = 100
         \<and> set score \<subseteq> {1, 2, 3, 4, 5})"
  using synthesized_values_in_range [OF demo_lib_contract empty_world_absent, of "''employees.csv''"]
    demo_lib_contract empty_world_absent
  by blast

text \<open>What the branch returns and writes does not depend on the world it starts from.\<close>

lemma load_absent_same:
  assumes "\<not> exists w1 p" and "\<not> exists w2 p"
  shows "fst (load_or_generate_data L p w1) = fst (load_or_generate_data L p w2)"
    and "fs (snd (load_or_generate_data L p w1)) p = fs (snd (load_or_generate_data L p w2)) p"
  using assms
  by (simp_all add: load_or_generate_data_def Let_def write_text_def exists_def
        split: prod.splits sum.splits)

text \<open>
  Claim C1.  Two runs that start without a dataset file (in working directories that may
  differ in everything else, run from scripts at different paths) leave the same bytes at
  the dataset path and build the same table: nothing of the world enters the
  data-generation path, whose only input is the generator seeded with 7.  With a
  generator that keeps its contract the file is written, and it is \<open>to_csv\<close> of that table.
\<close>

theorem fresh_runs_write_identical_datasets:
  assumes "\<not> exists w1 ''employees.csv''" and "\<not> exists w2 ''employees.csv''"
  shows "fs (snd (main L script1 w1)) ''employees.csv''
           = fs (snd (main L script2 w2)) ''employees.csv''
         \<and> fst (load_or_generate_data L ''employees.csv'' w1)
           = fst (load_or_generate_data L ''employees.csv'' w2)
         \<and> (sampler_contract L \<longrightarrow>
              (\<exists>df. fst (load_or_generate_data L ''employees.csv'' w1) = Inr df
                 \<and> fs (snd (main L script1 w1)) ''employees.csv'' = Some (to_csv df)
                 \<and> fs (snd (main L script2 w2)) ''employees.csv'' = Some (to_csv df)))"
proof (intro conjI impI)
  show "fs (snd (main L script1 w1)) ''employees.csv''
           = fs (snd (main L script2 w2)) ''employees.csv''"
    using load_absent_same(2) [OF assms] by (simp only: main_fs_dataset)
  show "fst (load_or_generate_data L ''employees.csv'' w1)
           = fst (load_or_generate_data L ''employees.csv'' w2)"
    by (rule load_absent_same(1) [OF assms])
next
  assume c: "sampler_contract L"
  obtain department rng1 where c1:
    "choice L (default_rng L 7)
       [''Finance'', ''HR'', ''IT'', ''Operations'', ''Sales'', ''Marketing''] 100
       [0.18, 0.12, 0.22, 0.20, 0.18, 0.10] = (department, rng1)"
    by fastforce
  obtain region rng2 where c2:
    "choice L rng1 [''North'', ''South'', ''East'', ''West''] 100
       [0.3, 0.25, 0.25, 0.2] = (region, rng2)"
    by fastforce
  obtain score rng3 where c3: "integers L rng2 1 6 100 = (score, rng3)"
    by fastforce
  define df where "df = [(''Employee_ID'', map IntV (py_range 1 101)),
               (''Department'', map StrV department),
               (''Region'', map StrV region),
               (''Performance_Score'', map IntV score)]"
  have l1: "load_or_generate_data L ''employees.csv'' w1 =
            (Inr df, write_text ''employees.csv'' (to_csv df) w1)"
    by (rule load_absent(1) [OF c assms(1) c1 c2 c3 df_def])
  have l2: "load_or_generate_data L ''employees.csv'' w2 =
            (Inr df, write_text ''employees.csv'' (to_csv df) w2)"
    by (rule load_absent(1) [OF c assms(2) c1 c2 c3 df_def])
  have "fst (load_or_generate_data L ''employees.csv'' w1) = Inr df"
    by (simp add: l1)
  moreover have "fs (snd (main L script1 w1)) ''employees.csv'' = Some (to_csv df)"
    by (simp add: main_fs_dataset l1 write_text_def)
  moreover have "fs (snd (main L script2 w2)) ''employees.csv'' = Some (to_csv df)"
    by (simp add: main_fs_dataset l2 write_text_def)
  ultimately show "\<exists>df. fst (load_or_generate_data L ''employees.csv'' w1) = Inr df
                 \<and> fs (snd (main L script1 w1)) ''employees.csv'' = Some (to_csv df)
                 \<and> fs (snd (main L script2 w2)) ''employees.csv'' = Some (to_csv df)"
    by blast
qed

theorem fresh_runs_write_identical_datasets_witness:
  "\<not> exists empty_world ''employees.csv'' \<and> \<not> exists cluttered_world ''employees.csv''
   \<and> fs (snd (main demo_lib ''report.py'' empty_world)) ''employees.csv''
       = fs (snd (main demo_lib ''other.py'' cluttered_world)) ''employees.csv''
   \<and> (\<exists>df. fst (load_or_generate_data demo_lib ''employees.csv'' empty_world) = Inr df
          \<and> fs (snd (main demo_lib ''report.py'' empty_world)) ''employees.csv'' = Some (to_csv df)
          \<and> fs (snd (main demo_lib ''other.py'' cluttered_world)) ''employees.csv'' = Some (to_csv df))"
  using fresh_runs_write_identical_datasets
      [OF empty_world_absent cluttered_world_absent, of demo_lib "''report.py''" "''other.py''"]
    demo_lib_contract empty_world_absent cluttered_world_absent
  by blast

section \<open>The chart: bars by department, in ascending order of label\<close>

lemma value_counts_drop_nan:
  "value_counts col = value_counts (filter (\<lambda>c. c \<noteq> NaN) col)"
  by (simp add: value_counts_def)

lemma filter_nan_strs: "filter (\<lambda>c. c \<noteq> NaN) (map StrV deps) = map StrV deps"
  by (induction deps) simp_all

lemma count_list_StrV: "count_list (map StrV deps) (StrV s) = count_list deps s"
  by (induction deps) simp_all

lemma texts_of_column:
  "list_all (\<lambda>c. c = NaN \<or> is_str c) col \<Longrightarrow>
   filter (\<lambda>c. c \<noteq> NaN) col = map StrV (map str_label (filter (\<lambda>c. c \<noteq> NaN) col))"
proof (induction col)
  case Nil
  then show ?case by simp
next
  case (Cons c col)
  then show ?case by (cases c) simp_all
qed

lemma value_counts_mset:
  "mset (value_counts col) =
   mset (map (\<lambda>l. (l, count_list (filter (\<lambda>c. c \<noteq> NaN) col) l))
          (rev (remdups (rev (filter (\<lambda>c. c \<noteq> NaN) col)))))"
  by (simp add: value_counts_def Let_def)

lemma value_counts_set:
  "set (value_counts col) =
   (\<lambda>l. (l, count_list (filter (\<lambda>c. c \<noteq> NaN) col) l)) ` {c \<in> set col. c \<noteq> NaN}"
  by (auto simp add: value_counts_def Let_def)

text \<open>Each distinct value has one entry, whatever the order the counting leaves them in.\<close>

lemma value_counts_distinct: "distinct (map fst (value_counts col))"
proof -
  let ?vals = "filter (\<lambda>c. c \<noteq> NaN) col"
  let ?xs = "map (\<lambda>l. (l, count_list ?vals l)) (rev (remdups (rev ?vals)))"
  have "mset (map fst (value_counts col)) = mset (map fst ?xs)"
    by (simp only: mset_map value_counts_mset)
  moreover have "distinct (map fst ?xs)"
    by (simp add: comp_def)
  ultimately show ?thesis
    using mset_eq_imp_distinct_iff by blast
qed

lemma sort_index_strs:
  assumes "\<forall>p \<in> set counts. is_str (fst p)"
  shows "sort_index counts = Inr (sort_key (\<lambda>p. str_label (fst p)) counts)"
  using assms by (simp add: sort_index_def list_all_iff)

text \<open>
  The sorted counts of a column of texts: the strictly ascending list of its distinct
  values, each with its number of occurrences.  A sorted list without repetitions is
  determined by its set, so the order \<open>value_counts\<close> produced does not matter.
\<close>

lemma sorted_counts_of_texts:
  "sort_index (value_counts (map StrV deps)) =
   Inr (map (\<lambda>s. (StrV s, count_list deps s)) (sort (remdups deps)))"
proof -
  let ?col = "map StrV deps"
  let ?key = "\<lambda>p :: cell \<times> nat. str_label (fst p)"
  let ?R = "sort_key ?key (value_counts ?col)"
  have elems: "set (value_counts ?col) = (\<lambda>s. (StrV s, count_list deps s)) ` set deps"
    by (auto simp add: value_counts_set filter_nan_strs count_list_StrV)
  then have strs: "\<forall>p \<in> set (value_counts ?col). is_str (fst p)"
    by auto
  have counts: "sort_index (value_counts ?col) = Inr ?R"
    by (rule sort_index_strs [OF strs])
  have setR: "set ?R = (\<lambda>s. (StrV s, count_list deps s)) ` set deps"
    using elems by simp
  have shape: "map (\<lambda>s. (StrV s, count_list deps s)) (map ?key ?R) = ?R"
    unfolding map_map by (rule map_idI) (use setR in auto)
  have d1: "distinct (map fst ?R)"
  proof -
    have "mset (map fst ?R) = mset (map fst (value_counts ?col))"
      by simp
    then show ?thesis
      using value_counts_distinct [of ?col] mset_eq_imp_distinct_iff by blast
  qed
  have i1: "inj_on str_label (set (map fst ?R))"
    using setR by (auto simp add: inj_on_def)
  have "distinct (map str_label (map fst ?R))"
    using distinct_map [of str_label "map fst ?R"] d1 i1 by blast
  then have dist: "distinct (map ?key ?R)"
    by (simp add: comp_def)
  have sorted: "sorted (map ?key ?R)"
    by (rule sorted_sort_key)
  have "set (map ?key ?R) = set deps"
    using setR by (auto simp add: image_image)
  then have "map ?key ?R = sort (remdups deps)"
    using sorted dist by (intro sorted_distinct_set_unique) simp_all
  with shape counts show ?thesis
    by simp
qed

lemma department_counts_texts:
  assumes "getitem df ''Department'' = Inr col"
    and "list_all (\<lambda>c. c = NaN \<or> is_str c) col"
    and "deps = map str_label (filter (\<lambda>c. c \<noteq> NaN) col)"
  shows "department_counts df =
         Inr (map (\<lambda>s. (StrV s, count_list deps s)) (sort (remdups deps)))"
proof -
  have "value_counts col = value_counts (map StrV deps)"
    using value_counts_drop_nan [of col] texts_of_column [OF assms(2)] assms(3) by simp
  then show ?thesis
    using assms(1) by (simp add: department_counts_def sorted_counts_of_texts)
qed

lemma department_counts_strs:
  assumes "getitem df ''Department'' = Inr (map StrV deps)"
  shows "department_counts df =
         Inr (map (\<lambda>s. (StrV s, count_list deps s)) (sort (remdups deps)))"
  using assms by (simp add: department_counts_def sorted_counts_of_texts)

lemma plot_strs_outcome:
  assumes "getitem df ''Department'' = Inr (map StrV deps)"
  shows "plot_department_distribution L df =
         (case savefig L (department_figure
                 (map (\<lambda>s. (StrV s, count_list deps s)) (sort (remdups deps)))) ''png'' ''tight'' of
            Inl msg \<Rightarrow> Inl (RenderError msg)
          | Inr buf \<Rightarrow> Inr buf)"
  by (simp add: plot_department_distribution_def department_counts_strs [OF assms])

lemma staffed_department:
  "getitem staffed_table ''Department'' = Inr [StrV ''IT'', StrV ''Finance'', StrV ''HR'']"
  by (simp add: getitem_def staffed_table_def)

text \<open>
  Claim C7, as amended.  The claim speaks of every employee table; it holds for the tables
  whose Department column holds texts.  For every such table (missing values allowed, and
  dropped), the renderer draws one bar per distinct department, of height the number of
  records of that department, and the bars stand in strictly ascending lexicographic
  order of their labels; this figure is what is handed to the PNG back end.  For the
  departments IT, Finance, HR the bars are Finance, HR, IT from left to right.
\<close>

theorem chart_bars_sorted_by_department:
  assumes "getitem df ''Department'' = Inr col"
    and "list_all (\<lambda>c. c = NaN \<or> is_str c) col"
  shows "\<exists>deps labels counts.
           deps = map str_label (filter (\<lambda>c. c \<noteq> NaN) col)
         \<and> labels = sort (remdups deps)
         \<and> sorted_wrt (<) labels \<and> set labels = set deps
         \<and> department_counts df = Inr counts
         \<and> counts = map (\<lambda>s. (StrV s, count_list deps s)) labels
         \<and> bar_x (department_figure counts) = map StrV labels
         \<and> bar_height (department_figure counts) = map (count_list deps) labels
         \<and> plot_department_distribution L df =
             (case savefig L (department_figure counts) ''png'' ''tight'' of
                Inl msg \<Rightarrow> Inl (RenderError msg)
              | Inr buf \<Rightarrow> Inr buf)
         \<and> department_counts [(''Department'', [StrV ''IT'', StrV ''Finance'', StrV ''HR''])]
             = Inr [(StrV ''Finance'', 1), (StrV ''HR'', 1), (StrV ''IT'', 1)]"
proof -
  define deps where "deps = map str_label (filter (\<lambda>c. c \<noteq> NaN) col)"
  have c: "department_counts df =
           Inr (map (\<lambda>s. (StrV s, count_list deps s)) (sort (remdups deps)))"
    by (rule department_counts_texts [OF assms deps_def])
  have s: "sorted_wrt (<) (sort (remdups deps))"
    by (simp add: strict_sorted_iff)
  have "getitem [(''Department'', [StrV ''IT'', StrV ''Finance'', StrV ''HR''])] ''Department''
        = Inr (map StrV [''IT'', ''Finance'', ''HR''])"
    by (simp add: getitem_def)
  from department_counts_strs [OF this]
  have e: "department_counts [(''Department'', [StrV ''IT'', StrV ''Finance'', StrV ''HR''])]
             = Inr [(StrV ''Finance'', 1), (StrV ''HR'', 1), (StrV ''IT'', 1)]"
    by simp
  show ?thesis
    using c s e
    by (simp add: deps_def plot_department_distribution_def department_figure_def comp_def)
qed

theorem chart_bars_sorted_by_department_witness:
  "getitem staffed_table ''Department'' = Inr [StrV ''IT'', StrV ''Finance'', StrV ''HR'']
   \<and> list_all (\<lambda>c. c = NaN \<or> is_str c) [StrV ''IT'', StrV ''Finance'', StrV ''HR'']
   \<and> department_counts staffed_table = Inr [(StrV ''Finance'', 1), (StrV ''HR'', 1), (StrV ''IT'', 1)]
   \<and> bar_x (department_figure [(StrV ''Finance'', 1), (StrV ''HR'', 1), (StrV ''IT'', 1)])
       = [StrV ''Finance'', StrV ''HR'', StrV ''IT'']
   \<and> plot_department_distribution demo_lib staffed_table = Inr ''1 1 1''"
proof -
  have a: "list_all (\<lambda>c. c = NaN \<or> is_str c) [StrV ''IT'', StrV ''Finance'', StrV ''HR'']"
    by simp
  show ?thesis
    using chart_bars_sorted_by_department [OF staffed_department a, of demo_lib]
      staffed_department a
    by (simp add: department_figure_def demo_lib_def demo_savefig_def)
qed

subsection \<open>Labels that are not texts\<close>

lemma integer_department_counts:
  "department_counts [(''Department'', [IntV 10, IntV 9, IntV 10])]
     = Inr [(IntV 9, 1), (IntV 10, 2)]"
  by (simp add: department_counts_def getitem_def value_counts_def sort_index_def)

lemma mixed_department_counts:
  "department_counts [(''Department'', [StrV ''IT'', IntV 3])]
     = Inl (TypeError ''< not supported between instances of str and int'')"
  by (simp add: department_counts_def getitem_def value_counts_def sort_index_def)

text \<open>
  Claim C7, as stated, fails on a table loaded with another schema.  A Department column
  of the integers 10, 9, 10 is sorted by \<open>sort_index\<close> as numbers: the bars are 9 and 10 in
  this order, while the label 10 comes before the label 9 lexicographically.  A column
  that mixes a text with an integer cannot be sorted at all: the renderer raises a
  \<open>TypeError\<close> and draws no bars.
\<close>

theorem chart_bars_integer_labels_counterexample:
  "department_counts [(''Department'', [IntV 10, IntV 9, IntV 10])]
     = Inr [(IntV 9, 1), (IntV 10, 2)]
   \<and> bar_x (department_figure [(IntV 9, 1), (IntV 10, 2)]) = [IntV 9, IntV 10]
   \<and> map (str_int \<circ> int_label) (bar_x (department_figure [(IntV 9, 1), (IntV 10, 2)]))
       = [''9'', ''10'']
   \<and> \<not> sorted (map (str_int \<circ> int_label)
                  (bar_x (department_figure [(IntV 9, 1), (IntV 10, 2)])))
   \<and> str_int 10 < str_int 9
   \<and> plot_department_distribution demo_lib [(''Department'', [IntV 10, IntV 9, IntV 10])]
       = Inr ''1 2''
   \<and> department_counts [(''Department'', [StrV ''IT'', IntV 3])]
       = Inl (TypeError ''< not supported between instances of str and int'')
   \<and> plot_department_distribution demo_lib [(''Department'', [StrV ''IT'', IntV 3])]
       = Inl (TypeError ''< not supported between instances of str and int'')"
  by (simp add: plot_department_distribution_def integer_department_counts
        mixed_department_counts department_figure_def str_int_def demo_lib_def demo_savefig_def)

section \<open>A fresh run cannot miss the Department column\<close>

lemma main_with_strs:
  assumes "load_or_generate_data L ''employees.csv'' w = (Inr df, w1)"
    and "getitem df ''Department'' = Inr (map StrV deps)"
  shows "fst (main L script_path w) \<noteq> Inl (KeyError k)"
  using assms
  by (simp add: main_def Let_def plot_strs_outcome [OF assms(2)] read_text_def
        split: sum.splits option.splits)

text \<open>
  Claim C10.  On a run started with no dataset file, every table the dataset provider
  returns has a Department column, and the run never ends with a \<open>KeyError\<close>: neither the
  aggregation step nor the chart can miss the column.  With a generator that keeps its
  contract the provider does return a table.
\<close>

theorem fresh_run_has_department_column:
  assumes "\<not> exists w ''employees.csv''"
  shows "(\<forall>df w1. load_or_generate_data L ''employees.csv'' w = (Inr df, w1) \<longrightarrow>
            (\<exists>col. getitem df ''Department'' = Inr col))
         \<and> (\<forall>k. fst (main L script_path w) \<noteq> Inl (KeyError k))
         \<and> (sampler_contract L \<longrightarrow>
              (\<exists>df w1. load_or_generate_data L ''employees.csv'' w = (Inr df, w1)))"
proof (intro conjI allI impI)
  fix df w1
  assume l: "load_or_generate_data L ''employees.csv'' w = (Inr df, w1)"
  from load_absent_shape [OF assms l]
  show "\<exists>col. getitem df ''Department'' = Inr col"
    by (auto simp add: getitem_def)
next
  fix k
  obtain r w1 where l: "load_or_generate_data L ''employees.csv'' w = (r, w1)"
    by fastforce
  from load_absent_shape [OF assms l]
  show "fst (main L script_path w) \<noteq> Inl (KeyError k)"
  proof (elim disjE exE)
    fix m assume "r = Inl (ValueError m)"
    with l show ?thesis by (simp add: main_def)
  next
    fix ids department region score
    assume r: "r = Inr [(''Employee_ID'', ids), (''Department'', map StrV department),
                        (''Region'', region), (''Performance_Score'', score)]"
    show ?thesis
      by (rule main_with_strs [OF l [unfolded r], of department]) (simp add: getitem_def)
  qed
next
  assume c: "sampler_contract L"
  from fresh_table_exists [OF c assms]
  show "\<exists>df w1. load_or_generate_data L ''employees.csv'' w = (Inr df, w1)" .
qed

theorem fresh_run_has_department_column_witness:
  "\<not> exists empty_world ''employees.csv''
   \<and> (\<exists>df w1 col. load_or_generate_data demo_lib ''employees.csv'' empty_world = (Inr df, w1)
         \<and> getitem df ''Department'' = Inr col)
   \<and> (\<forall>k. fst (main demo_lib ''report.py'' empty_world) \<noteq> Inl (KeyError k))"
  using fresh_run_has_department_column [OF empty_world_absent, of demo_lib "''report.py''"]
    demo_lib_contract empty_world_absent
  by blast

section \<open>The Finance frequency on standard output\<close>

text \<open>
  Claim C3.  For every table the dataset provider returns that has a Department column,
  the run prints exactly one line, \<open>Finance department frequency: n\<close>, where \<open>n\<close> is the
  number of records whose department cell is the text \<open>Finance\<close> itself: the comparison is
  equality of cells, so another spelling, another case or a missing value is not counted.
\<close>

theorem printed_finance_frequency:
  assumes "load_or_generate_data L ''employees.csv'' w = (Inr df, w1)"
    and "getitem df ''Department'' = Inr col"
  shows "stdout (snd (main L script_path w)) =
         stdout w @ [''Finance department frequency: ''
                     @ str_int (int (length (filter (\<lambda>c. c = StrV ''Finance'') col)))]"
  using main_stdout [OF assms] by (simp add: sum_bool_count)

theorem printed_finance_frequency_witness:
  "stdout (snd (main demo_lib ''report.py'' staffed_world)) =
   [''Finance department frequency: 1'']"
  using printed_finance_frequency
    [OF load_staffed, of "[StrV ''IT'', StrV ''Finance'', StrV ''HR'']" "''report.py''"]
  by (simp add: getitem_def staffed_table_def staffed_world_def str_int_def)

section \<open>An existing dataset is read, never written\<close>

text \<open>
  Claim C4.  When a file exists at the dataset path, the run leaves its contents as they
  were, whatever they are and however the run ends (the parser may reject them, the table
  may lack columns): the dataset provider returns the world unchanged, and the report is
  written under another name.
\<close>

theorem existing_dataset_unchanged:
  assumes "fs w ''employees.csv'' = Some content"
  shows "fs (snd (main L script_path w)) ''employees.csv'' = Some content
         \<and> snd (load_or_generate_data L ''employees.csv'' w) = w"
proof -
  have "exists w ''employees.csv''"
    using assms by (simp add: exists_def)
  then have "snd (load_or_generate_data L ''employees.csv'' w) = w"
    by (rule load_present_world)
  then show ?thesis
    using assms by (simp add: main_fs_dataset)
qed

theorem existing_dataset_unchanged_witness:
  "fs (snd (main demo_lib ''report.py'' staffed_world)) ''employees.csv'' = Some staffed_csv
   \<and> snd (load_or_generate_data demo_lib ''employees.csv'' staffed_world) = staffed_world"
  using existing_dataset_unchanged [of staffed_world staffed_csv demo_lib "''report.py''"]
  by (simp add: staffed_world_def)

section \<open>A dataset without a department column\<close>

text \<open>
  Claim C5.  When the dataset file exists and parses to a table that has no Department
  column, the run ends with the \<open>KeyError\<close> raised by the aggregation step, in the world
  it started from: nothing has been printed (so no zero count) and no report is written.
\<close>

theorem missing_department_is_fatal:
  assumes "fs w ''employees.csv'' = Some text"
    and "read_csv L text = Inr df"
    and "''Department'' \<notin> fst ` set df"
  shows "main L script_path w = (Inl (KeyError ''Department''), w)"
  using assms
  by (simp add: main_def load_or_generate_data_def exists_def read_text_def getitem_missing)

theorem missing_department_is_fatal_witness:
  "main demo_lib ''report.py'' stale_world = (Inl (KeyError ''Department''), stale_world)"
  using missing_department_is_fatal [of stale_world stale_csv demo_lib stale_table "''report.py''"]
  by (simp add: stale_world_def demo_lib_def demo_read_stale stale_table_def)

section \<open>One count, printed and embedded\<close>

lemma staffed_department_texts:
  "getitem staffed_table ''Department'' = Inr (map StrV [''IT'', ''Finance'', ''HR''])"
  by (simp add: getitem_def staffed_table_def)

lemma staffed_plot: "plot_department_distribution demo_lib staffed_table = Inr ''1 1 1''"
  by (simp add: plot_strs_outcome [OF staffed_department_texts] department_figure_def
        demo_lib_def demo_savefig_def)

lemma staffed_script:
  "read_text ''report.py'' (print line staffed_world) = Inr ''if a < b & c > d: pass''"
  by (simp add: read_text_def print_def staffed_world_def)

lemma main_staffed:
  "main demo_lib ''report.py'' staffed_world =
     (Inr (), build_html_report demo_lib (escape_source ''if a < b & c > d: pass'') ''1 1 1'' 1
                ''employee_report.html'' (print ''Finance department frequency: 1'' staffed_world))"
  by (simp add: main_def load_staffed staffed_department_texts staffed_plot staffed_script
        sum_bool_def eq_scalar_def str_int_def)

text \<open>
  Claim C9.  In every run that completes, the integer in the line printed to standard
  output and the integer in the Finance paragraph of the report are renderings of one
  value, the number of records whose department cell is the text \<open>Finance\<close>; the report is
  the template with that rendering, the encoded image of the chart and the escaped text
  of the script in its three holes.
\<close>

theorem report_count_matches_stdout:
  assumes "main L script_path w = (Inr u, w')"
  shows "\<exists>df w1 col n img src.
           load_or_generate_data L ''employees.csv'' w = (Inr df, w1)
         \<and> getitem df ''Department'' = Inr col
         \<and> n = int (length (filter (\<lambda>c. c = StrV ''Finance'') col))
         \<and> plot_department_distribution L df = Inr img
         \<and> fs w1 script_path = Some src
         \<and> stdout w' = stdout w @ [''Finance department frequency: '' @ str_int n]
         \<and> fs w' ''employee_report.html'' =
             Some (report_head @ str_int n @ report_chart @ b64encode L img
                   @ report_code @ escape_source src @ report_tail)"
proof -
  obtain r w1 where l: "load_or_generate_data L ''employees.csv'' w = (r, w1)"
    by fastforce
  have sw: "stdout w1 = stdout w"
    using load_stdout [of L "''employees.csv''" w] l by simp
  from assms l obtain df where r: "r = Inr df"
    by (cases r) (simp_all add: main_def)
  from assms l r obtain col where g: "getitem df ''Department'' = Inr col"
    by (cases "getitem df ''Department''") (simp_all add: main_def)
  let ?n = "sum_bool (eq_scalar col ''Finance'')"
  let ?w2 = "print (''Finance department frequency: '' @ str_int ?n) w1"
  from assms l r g obtain img where p: "plot_department_distribution L df = Inr img"
    by (cases "plot_department_distribution L df") (simp_all add: main_def Let_def)
  from assms l r g p obtain src where t: "read_text script_path ?w2 = Inr src"
    by (cases "read_text script_path ?w2") (simp_all add: main_def Let_def)
  then have src: "fs w1 script_path = Some src"
    by (simp add: read_text_def print_def split: option.splits)
  from assms l r g p t
  have w': "w' = build_html_report L (escape_source src) img ?n ''employee_report.html'' ?w2"
    by (simp add: main_def Let_def)
  have "stdout w' = stdout w @ [''Finance department frequency: '' @ str_int ?n]"
    by (simp add: w' build_html_report_def write_text_def print_def sw)
  moreover have "fs w' ''employee_report.html'' =
      Some (report_head @ str_int ?n @ report_chart @ b64encode L img
            @ report_code @ escape_source src @ report_tail)"
    by (simp add: w' build_html_report_def write_text_def)
  ultimately show ?thesis
    using l r g p src sum_bool_count [of col "''Finance''"] by auto
qed

theorem report_count_matches_stdout_witness:
  "\<exists>df w1 col n img src.
           load_or_generate_data demo_lib ''employees.csv'' staffed_world = (Inr df, w1)
         \<and> getitem df ''Department'' = Inr col
         \<and> n = int (length (filter (\<lambda>c. c = StrV ''Finance'') col))
         \<and> plot_department_distribution demo_lib df = Inr img
         \<and> fs w1 ''report.py'' = Some src
         \<and> stdout (snd (main demo_lib ''report.py'' staffed_world)) =
             stdout staffed_world @ [''Finance department frequency: '' @ str_int n]
         \<and> fs (snd (main demo_lib ''report.py'' staffed_world)) ''employee_report.html'' =
             Some (report_head @ str_int n @ report_chart @ b64encode demo_lib img
                   @ report_code @ escape_source src @ report_tail)"
  using report_count_matches_stdout [of demo_lib "''report.py''" staffed_world "()"
      "snd (main demo_lib ''report.py'' staffed_world)"]
  by (simp add: main_staffed)

section \<open>Escaping the source text\<close>

lemma replace_single:
  "replace [c] new s = concat (map (\<lambda>x. if x = c then new else [x]) s)"
  by (induction s) auto

lemma replace_append_single:
  "replace [c] new (s @ t) = replace [c] new s @ replace [c] new t"
  by (simp add: replace_single)

lemma escape_source_Nil: "escape_source [] = []"
  by (simp add: escape_source_def)

text \<open>
  One character at a time: the three passes together turn a character into its entity
  and leave the rest of the text to be escaped alone.  The ampersands that the second and
  third pass introduce are never seen by the first.
\<close>

lemma escape_source_Cons: "escape_source (c # s) = html_entity c @ escape_source s"
proof -
  have "c # s = [c] @ s" by simp
  then have "escape_source (c # s) = escape_source [c] @ escape_source s"
    unfolding escape_source_def by (simp only: replace_append_single)
  moreover have "escape_source [c] = html_entity c"
    by (simp add: escape_source_def html_entity_def)
  ultimately show ?thesis by simp
qed

lemma escape_source_entities: "escape_source s = concat (map html_entity s)"
  by (induction s) (simp_all add: escape_source_Nil escape_source_Cons)

lemma html_entity_no_angle:
  "CHR ''<'' \<notin> set (html_entity c)" "CHR ''>'' \<notin> set (html_entity c)"
  by (simp_all add: html_entity_def)

lemma escape_source_no_angle:
  "CHR ''<'' \<notin> set (escape_source s)" "CHR ''>'' \<notin> set (escape_source s)"
  by (simp_all add: escape_source_entities html_entity_no_angle)

lemma html_entity_amp:
  assumes "i < length (html_entity c)" and "html_entity c ! i = CHR ''&''"
  shows "i = 0 \<and> html_entity c \<in> {''&amp;'', ''&lt;'', ''&gt;''}"
proof -
  consider "c = CHR ''&''" | "c = CHR ''<''" | "c = CHR ''>''"
    | "c \<noteq> CHR ''&''" "c \<noteq> CHR ''<''" "c \<noteq> CHR ''>''"
    by blast
  then show ?thesis
  proof cases
    case 1
    with assms have "i < 5" "''&amp;'' ! i = CHR ''&''" by (simp_all add: html_entity_def)
    then have "i = 0" by (auto simp add: less_Suc_eq numeral_eq_Suc nth_Cons')
    with 1 show ?thesis by (simp add: html_entity_def)
  next
    case 2
    with assms have "i < 4" "''&lt;'' ! i = CHR ''&''" by (simp_all add: html_entity_def)
    then have "i = 0" by (auto simp add: less_Suc_eq numeral_eq_Suc nth_Cons')
    with 2 show ?thesis by (simp add: html_entity_def)
  next
    case 3
    with assms have "i < 4" "''&gt;'' ! i = CHR ''&''" by (simp_all add: html_entity_def)
    then have "i = 0" by (auto simp add: less_Suc_eq numeral_eq_Suc nth_Cons')
    with 3 show ?thesis by (simp add: html_entity_def)
  next
    case 4
    with assms show ?thesis by (simp add: html_entity_def)
  qed
qed

lemma escape_source_amp:
  "i < length (escape_source s) \<Longrightarrow> escape_source s ! i = CHR ''&'' \<Longrightarrow>
   entity_at (escape_source s) i"
proof (induction s arbitrary: i)
  case Nil
  then show ?case by (simp add: escape_source_Nil)
next
  case (Cons c s)
  let ?e = "html_entity c"
  show ?case
  proof (cases "i < length ?e")
    case True
    with Cons.prems have "?e ! i = CHR ''&''"
      by (simp add: escape_source_Cons nth_append)
    with True have "i = 0" and "?e \<in> {''&amp;'', ''&lt;'', ''&gt;''}"
      using html_entity_amp by blast+
    then show ?thesis
      by (auto simp add: entity_at_def escape_source_Cons)
  next
    case False
    with Cons.prems have "i - length ?e < length (escape_source s)"
      and "escape_source s ! (i - length ?e) = CHR ''&''"
      by (simp_all add: escape_source_Cons nth_append)
    then have "entity_at (escape_source s) (i - length ?e)"
      by (rule Cons.IH)
    with False show ?thesis
      by (simp add: entity_at_def escape_source_Cons)
  qed
qed

text \<open>
  Claim C6.  For every source text, the escaping step is the three replacements in the
  order ampersand, less-than, greater-than, and its result is the text with each of these
  characters replaced by its named entity and every other character kept (nothing is
  escaped twice); the result holds no less-than and no greater-than sign, and each
  ampersand in it is the first character of one of the three entities.
\<close>

theorem escaped_source_has_no_raw_markup:
  "escape_source s =
     replace ''>'' ''&gt;'' (replace ''<'' ''&lt;'' (replace ''&'' ''&amp;'' s))
   \<and> escape_source s = concat (map html_entity s)
   \<and> CHR ''<'' \<notin> set (escape_source s)
   \<and> CHR ''>'' \<notin> set (escape_source s)
   \<and> (\<forall>i < length (escape_source s).
         escape_source s ! i = CHR ''&'' \<longrightarrow> entity_at (escape_source s) i)"
  using escape_source_entities escape_source_no_angle escape_source_amp
  by (simp add: escape_source_def)

theorem escaped_source_has_no_raw_markup_witness:
  "escape_source ''if a < b & c > d: pass'' = ''if a &lt; b &amp; c &gt; d: pass''
   \<and> entity_at (escape_source ''if a < b & c > d: pass'') 5"
proof -
  have e: "escape_source ''if a < b & c > d: pass'' = ''if a &lt; b &amp; c &gt; d: pass''"
    by (simp add: escape_source_def)
  have "5 < length (escape_source ''if a < b & c > d: pass'')"
    and "escape_source ''if a < b & c > d: pass'' ! 5 = CHR ''&''"
    by (simp_all add: e)
  then show ?thesis
    using escaped_source_has_no_raw_markup [of "''if a < b & c > d: pass''"] e by blast
qed

end
